theory Spec2Isabelle
  imports Complex_Main
begin

section \<open>JavaScript values carried by argument maps\<close>

text \<open>
  The tools of \<^verbatim>\<open>index.ts\<close> receive \<^verbatim>\<open>ToolArgs = Record<string, unknown>\<close>, parsed from
  JSON, and use the values through casts (\<^verbatim>\<open>args.timeout as number\<close>) that do nothing at
  run time. The values are therefore modelled as they arrive: any JSON primitive, or
  \<^verbatim>\<open>undefined\<close> for a missing key. A number is a finite value, an infinity or NaN.
\<close>

datatype jsnum = NaN | NegInf | Fin real | PosInf

datatype jsval = JUndefined | JNull | JBool bool | JNum jsnum | JStr string

type_synonym ToolArgs = "string \<rightharpoonup> jsval"

text \<open>A thrown \<^verbatim>\<open>Error\<close>: its \<^verbatim>\<open>name\<close> and its \<^verbatim>\<open>message\<close>.\<close>

datatype fault = JSError (err_name: string) (err_message: string)

type_synonym bytes = "char list"

text \<open>
  Functions of the JavaScript runtime that the program calls and that are taken as
  parameters: the conversion of a string to a number, the printing of a number that is
  not a small integer, floating-point addition where it may round, the streaming
  \<^verbatim>\<open>TextDecoder\<close> (the text it returns for a chunk, given the chunks it was fed
  before), the expansion of \<^verbatim>\<open>$\<close> patterns in a replacement string, regular
  expressions, \<^verbatim>\<open>trim\<close> and \<^verbatim>\<open>trimEnd\<close> (they strip every white space and line terminator
  of Unicode, which the characters of the model do not single out), and the message of
  the \<^verbatim>\<open>TypeError\<close> raised by calling \<^verbatim>\<open>undefined\<close>.
\<close>

record jslib =
  StringToNumber :: "string \<Rightarrow> jsnum"
  NumberToString_other :: "real \<Rightarrow> string"
  fp_add :: "real \<Rightarrow> real \<Rightarrow> jsnum"
  TextDecoder_decode :: "bytes list \<Rightarrow> bytes \<Rightarrow> string"
  GetSubstitution_dollar :: "string \<Rightarrow> string \<Rightarrow> nat \<Rightarrow> string \<Rightarrow> string"
  RegExp_new :: "jsval \<Rightarrow> fault + (string \<Rightarrow> bool)"
  String_trim :: "string \<Rightarrow> string"
  String_trimEnd :: "string \<Rightarrow> string"
  not_callable_message :: string

definition arg :: "ToolArgs \<Rightarrow> string \<Rightarrow> jsval" where
  \<comment> \<open>property access \<^verbatim>\<open>args.k\<close>\<close>
  "arg args k = (case args k of None \<Rightarrow> JUndefined | Some v \<Rightarrow> v)"

fun truthy :: "jsval \<Rightarrow> bool" where
  "truthy JUndefined = False"
| "truthy JNull = False"
| "truthy (JBool b) = b"
| "truthy (JNum n) = (n \<noteq> NaN \<and> n \<noteq> Fin 0)"
| "truthy (JStr s) = (s \<noteq> [])"

definition js_or :: "jsval \<Rightarrow> jsval \<Rightarrow> jsval" where
  \<comment> \<open>the operator \<^verbatim>\<open>a || b\<close>\<close>
  "js_or a b = (if truthy a then a else b)"

definition nullish :: "jsval \<Rightarrow> jsval \<Rightarrow> jsval" where
  \<comment> \<open>the operator \<^verbatim>\<open>a ?? b\<close>\<close>
  "nullish a b = (if a = JUndefined \<or> a = JNull then b else a)"

subsection \<open>Decimal numerals\<close>

fun show_nat :: "nat \<Rightarrow> string" where
  "show_nat n = (if n < 10 then [''0123456789'' ! n]
                 else show_nat (n div 10) @ [''0123456789'' ! (n mod 10)])"

declare show_nat.simps [simp del]

definition show_int :: "int \<Rightarrow> string" where
  "show_int i = (if i < 0 then CHR ''-'' # show_nat (nat (- i)) else show_nat (nat i))"

subsection \<open>Conversions and arithmetic\<close>

fun ToNumber :: "jslib \<Rightarrow> jsval \<Rightarrow> jsnum" where
  "ToNumber lib JUndefined = NaN"
| "ToNumber lib JNull = Fin 0"
| "ToNumber lib (JBool b) = (if b then Fin 1 else Fin 0)"
| "ToNumber lib (JNum n) = n"
| "ToNumber lib (JStr s) = StringToNumber lib s"

fun Number_toString :: "jslib \<Rightarrow> jsnum \<Rightarrow> string" where
  "Number_toString lib NaN = ''NaN''"
| "Number_toString lib PosInf = ''Infinity''"
| "Number_toString lib NegInf = ''-Infinity''"
| "Number_toString lib (Fin r) =
     (if r \<in> \<int> \<and> \<bar>r\<bar> < 10 ^ 21 then show_int \<lfloor>r\<rfloor> else NumberToString_other lib r)"

fun ToString :: "jslib \<Rightarrow> jsval \<Rightarrow> string" where
  "ToString lib JUndefined = ''undefined''"
| "ToString lib JNull = ''null''"
| "ToString lib (JBool b) = (if b then ''true'' else ''false'')"
| "ToString lib (JNum n) = Number_toString lib n"
| "ToString lib (JStr s) = s"

fun num_add :: "jslib \<Rightarrow> jsnum \<Rightarrow> jsnum \<Rightarrow> jsnum" where
  "num_add lib NaN b = NaN"
| "num_add lib a NaN = NaN"
| "num_add lib PosInf NegInf = NaN"
| "num_add lib NegInf PosInf = NaN"
| "num_add lib PosInf b = PosInf"
| "num_add lib a PosInf = PosInf"
| "num_add lib NegInf b = NegInf"
| "num_add lib a NegInf = NegInf"
| "num_add lib (Fin x) (Fin y) =
     (if x \<in> \<int> \<and> y \<in> \<int> \<and> \<bar>x + y\<bar> \<le> 2 ^ 53 then Fin (x + y) else fp_add lib x y)"

fun js_add :: "jslib \<Rightarrow> jsval \<Rightarrow> jsval \<Rightarrow> jsval" where
  \<comment> \<open>\<^verbatim>\<open>a + b\<close>: concatenation as soon as one operand is a string\<close>
  "js_add lib (JStr s) b = JStr (s @ ToString lib b)"
| "js_add lib a (JStr t) = JStr (ToString lib a @ t)"
| "js_add lib a b = JNum (num_add lib (ToNumber lib a) (ToNumber lib b))"

fun Math_max :: "jsnum \<Rightarrow> jsnum \<Rightarrow> jsnum" where
  "Math_max NaN b = NaN"
| "Math_max a NaN = NaN"
| "Math_max PosInf b = PosInf"
| "Math_max a PosInf = PosInf"
| "Math_max NegInf b = b"
| "Math_max a NegInf = a"
| "Math_max (Fin x) (Fin y) = Fin (max x y)"

fun Math_min :: "jsnum \<Rightarrow> jsnum \<Rightarrow> jsnum" where
  "Math_min NaN b = NaN"
| "Math_min a NaN = NaN"
| "Math_min NegInf b = NegInf"
| "Math_min a NegInf = NegInf"
| "Math_min PosInf b = b"
| "Math_min a PosInf = a"
| "Math_min (Fin x) (Fin y) = Fin (min x y)"

section \<open>Strings and arrays\<close>

fun String_startsWith :: "string \<Rightarrow> string \<Rightarrow> bool" where
  "String_startsWith t [] = True"
| "String_startsWith [] (c # cs) = False"
| "String_startsWith (x # xs) (c # cs) = (x = c \<and> String_startsWith xs cs)"

definition String_endsWith :: "string \<Rightarrow> string \<Rightarrow> bool" where
  "String_endsWith t s = String_startsWith (rev t) (rev s)"

fun String_includes :: "string \<Rightarrow> string \<Rightarrow> bool" where
  "String_includes [] s = (s = [])"
| "String_includes (x # xs) s = (String_startsWith (x # xs) s \<or> String_includes xs s)"

text \<open>
  \<^verbatim>\<open>text.split(sep)\<close> for a non-empty separator \<open>p # ps\<close>: the text is scanned from the
  left, and each occurrence found closes the current piece and is skipped as a whole.
\<close>

fun split_scan :: "char \<Rightarrow> string \<Rightarrow> string \<Rightarrow> string list" where
  "split_scan p ps [] = [[]]"
| "split_scan p ps (c # cs) =
     (if String_startsWith (c # cs) (p # ps) then [] # split_scan p ps (drop (length ps) cs)
      else (let r = split_scan p ps cs in (c # hd r) # tl r))"

definition String_split :: "string \<Rightarrow> string \<Rightarrow> string list" where
  \<comment> \<open>an empty separator splits into the single code units\<close>
  "String_split t sep = (case sep of [] \<Rightarrow> map (\<lambda>c. [c]) t | p # ps \<Rightarrow> split_scan p ps t)"

fun Array_join :: "string \<Rightarrow> string list \<Rightarrow> string" where
  "Array_join sep [] = []"
| "Array_join sep [x] = x"
| "Array_join sep (x # y # ys) = x @ sep @ Array_join sep (y # ys)"

definition String_padStart :: "nat \<Rightarrow> string \<Rightarrow> string" where
  "String_padStart n s = replicate (n - length s) CHR '' '' @ s"

definition GetSubstitution :: "jslib \<Rightarrow> string \<Rightarrow> string \<Rightarrow> nat \<Rightarrow> string \<Rightarrow> string" where
  \<comment> \<open>a replacement string without \<^verbatim>\<open>$\<close> is inserted as it is\<close>
  "GetSubstitution lib matched t pos repl =
     (if CHR ''$'' \<in> set repl then GetSubstitution_dollar lib matched t pos repl else repl)"

fun replace_scan :: "jslib \<Rightarrow> string \<Rightarrow> string \<Rightarrow> string \<Rightarrow> nat \<Rightarrow> string \<Rightarrow> string" where
  \<comment> \<open>\<open>whole\<close> is the full text, \<open>pos\<close> the position scanned\<close>
  "replace_scan lib whole pat repl pos [] =
     (if pat = [] then GetSubstitution lib pat whole pos repl else [])"
| "replace_scan lib whole pat repl pos (c # cs) =
     (if String_startsWith (c # cs) pat
      then GetSubstitution lib pat whole pos repl @ drop (length pat) (c # cs)
      else c # replace_scan lib whole pat repl (Suc pos) cs)"

definition String_replace :: "jslib \<Rightarrow> string \<Rightarrow> string \<Rightarrow> string \<Rightarrow> string" where
  \<comment> \<open>\<^verbatim>\<open>text.replace(pat, repl)\<close> with a string pattern: the first occurrence only\<close>
  "String_replace lib t pat repl = replace_scan lib t pat repl 0 t"

fun replaceAll_scan :: "jslib \<Rightarrow> string \<Rightarrow> char \<Rightarrow> string \<Rightarrow> string \<Rightarrow> nat \<Rightarrow> string \<Rightarrow> string" where
  "replaceAll_scan lib whole p ps repl pos [] = []"
| "replaceAll_scan lib whole p ps repl pos (c # cs) =
     (if String_startsWith (c # cs) (p # ps)
      then GetSubstitution lib (p # ps) whole pos repl
           @ replaceAll_scan lib whole p ps repl (pos + Suc (length ps)) (drop (length ps) cs)
      else c # replaceAll_scan lib whole p ps repl (Suc pos) cs)"

fun replaceAll_empty :: "jslib \<Rightarrow> string \<Rightarrow> string \<Rightarrow> nat \<Rightarrow> string \<Rightarrow> string" where
  \<comment> \<open>the empty pattern matches before every code unit and at the end\<close>
  "replaceAll_empty lib whole repl pos [] = GetSubstitution lib [] whole pos repl"
| "replaceAll_empty lib whole repl pos (c # cs) =
     GetSubstitution lib [] whole pos repl @ c # replaceAll_empty lib whole repl (Suc pos) cs"

definition String_replaceAll :: "jslib \<Rightarrow> string \<Rightarrow> string \<Rightarrow> string \<Rightarrow> string" where
  "String_replaceAll lib t pat repl =
     (case pat of [] \<Rightarrow> replaceAll_empty lib t repl 0 t
      | p # ps \<Rightarrow> replaceAll_scan lib t p ps repl 0 t)"

definition ToIntegerOrInfinity :: "jsnum \<Rightarrow> jsnum" where
  "ToIntegerOrInfinity n =
     (case n of NaN \<Rightarrow> Fin 0
      | Fin r \<Rightarrow> Fin (of_int (if 0 \<le> r then \<lfloor>r\<rfloor> else \<lceil>r\<rceil>))
      | _ \<Rightarrow> n)"

definition rel_index :: "nat \<Rightarrow> jsnum \<Rightarrow> nat" where
  \<comment> \<open>an index argument of \<^verbatim>\<open>slice\<close>, resolved against the length\<close>
  "rel_index len n =
     (case ToIntegerOrInfinity n of NegInf \<Rightarrow> 0 | PosInf \<Rightarrow> len
      | Fin r \<Rightarrow> (if r < 0 then nat (max (int len + \<lfloor>r\<rfloor>) 0) else min (nat \<lfloor>r\<rfloor>) len)
      | NaN \<Rightarrow> 0)"

definition Array_slice :: "jslib \<Rightarrow> 'a list \<Rightarrow> jsval \<Rightarrow> jsval \<Rightarrow> 'a list" where
  \<comment> \<open>\<^verbatim>\<open>xs.slice(start, stop)\<close>; an \<^verbatim>\<open>undefined\<close> second argument is the length\<close>
  "Array_slice lib xs start stop =
     (let len = length xs;
          k = rel_index len (ToNumber lib start);
          final = (if stop = JUndefined then len else rel_index len (ToNumber lib stop))
      in take (final - k) (drop k xs))"

definition Error_toString :: "fault \<Rightarrow> string" where
  "Error_toString e =
     (if err_name e = [] then err_message e
      else if err_message e = [] then err_name e
      else err_name e @ '': '' @ err_message e)"

section \<open>Configuration and the operating system\<close>

record config =
  API_URL :: string
  MODEL :: string
  GREP_LIMIT :: jsnum
  MAX_FILE_SIZE :: jsnum
  IS_WINDOWS :: bool

definition IGNORE_PATTERNS :: "string list" where
  "IGNORE_PATTERNS =
     [''.git'', ''node_modules'', ''dist'', ''build'', ''.next'', ''coverage'', ''.cache'']"

definition SHELL :: "config \<Rightarrow> jsval list" where
  "SHELL cfg = (if IS_WINDOWS cfg then [JStr ''cmd'', JStr ''/c''] else [JStr ''sh'', JStr ''-c''])"

datatype channel = Stdout | Stderr

text \<open>
  What a spawned process shows to \<^verbatim>\<open>exec\<close> in a run that ends: the chunks its two
  readers received, in the order of arrival (a reader that fails stops silently, so its
  later chunks are not part of the history), whether the timer fired before it was
  cleared, the exit code (\<^verbatim>\<open>null\<close> when there is none) and the state of the system
  afterwards.
\<close>

record 'w proc_history =
  chunks :: "(channel \<times> bytes) list"
  timer_fired :: bool
  exitCode :: "int option"
  world_after :: 'w

record file_stat =
  isDirectory :: bool
  mtime :: "real option"

text \<open>
  What \<^verbatim>\<open>readdir(dir, {withFileTypes: true})\<close> returns at a directory and below it: for
  each entry its name, whether it is a directory, the result of \<^verbatim>\<open>join(dir, name)\<close>, and
  the result of \<^verbatim>\<open>readdir\<close> at that path.
\<close>

datatype dirent = Dirent string bool string dirlisting
  and dirlisting = ReaddirFault fault | Entries "dirent list"

text \<open>
  The operations of Bun and of \<^verbatim>\<open>fs/promises\<close> on a system state \<open>'w\<close>. Each returns its
  result or the fault it throws. \<open>spawn\<close> returns, for each timeout given to the timer,
  the history of the run, or \<open>None\<close> when the channels of the process never close.
\<close>

record 'w sys =
  file_text :: "jsval \<Rightarrow> 'w \<Rightarrow> fault + string"
  file_write :: "jsval \<Rightarrow> jsval \<Rightarrow> 'w \<Rightarrow> fault + 'w"
  file_stat :: "string \<Rightarrow> 'w \<Rightarrow> fault + file_stat option"
  glob_scan :: "jsval \<Rightarrow> jsval \<Rightarrow> 'w \<Rightarrow> fault + string list"
  readdir :: "jsval \<Rightarrow> 'w \<Rightarrow> dirlisting"
  fs_stat :: "jsval \<Rightarrow> 'w \<Rightarrow> fault + bool"
  fs_rm :: "jsval \<Rightarrow> bool \<Rightarrow> 'w \<Rightarrow> fault + 'w"
  fs_unlink :: "jsval \<Rightarrow> 'w \<Rightarrow> fault + 'w"
  fs_rename :: "jsval \<Rightarrow> jsval \<Rightarrow> 'w \<Rightarrow> fault + 'w"
  fs_cp :: "jsval \<Rightarrow> jsval \<Rightarrow> bool \<Rightarrow> 'w \<Rightarrow> fault + 'w"
  fs_copyFile :: "jsval \<Rightarrow> jsval \<Rightarrow> 'w \<Rightarrow> fault + 'w"
  spawn :: "jsval list \<Rightarrow> 'w \<Rightarrow> fault + (jsnum \<Rightarrow> 'w proc_history option)"

text \<open>
  The outcome of a handler: the text it returns or the fault it throws, with the new
  system state; \<open>None\<close> when it never returns.
\<close>

type_synonym 'w outcome = "((fault + string) \<times> 'w) option"

section \<open>The tools\<close>

definition getPath :: "ToolArgs \<Rightarrow> fault + jsval" where
  "getPath args =
     (let path = js_or (arg args ''path'') (arg args ''file_path'')
      in if \<not> truthy path then Inl (JSError ''Error'' ''path parameter is required'')
         else Inr path)"

definition shouldIgnore :: "string \<Rightarrow> bool" where
  "shouldIgnore filepath =
     list_ex (\<lambda>pattern. String_includes filepath (''/'' @ pattern @ ''/'')
                \<or> String_includes filepath ([CHR 0x5C] @ pattern @ [CHR 0x5C]))
       IGNORE_PATTERNS"

definition tool_read :: "jslib \<Rightarrow> 'w sys \<Rightarrow> ToolArgs \<Rightarrow> 'w \<Rightarrow> 'w outcome" where
  "tool_read lib sys args w =
     (case getPath args of Inl e \<Rightarrow> Some (Inl e, w)
      | Inr p \<Rightarrow>
        (case file_text sys p w of Inl e \<Rightarrow> Some (Inl e, w)
         | Inr text \<Rightarrow>
           (let lines = String_split text [CHR 0x0A];
                offset = nullish (arg args ''offset'') (JNum (Fin 0));
                selected =
                  (if truthy (arg args ''limit'')
                   then Array_slice lib lines offset (js_add lib offset (arg args ''limit''))
                   else Array_slice lib lines offset JUndefined)
            in Some (Inr (Array_join [CHR 0x0A]
                 (map (\<lambda>(index, line).
                    String_padStart 4
                      (ToString lib
                        (js_add lib (js_add lib offset (JNum (Fin (real index)))) (JNum (Fin 1))))
                    @ ''| '' @ line) (enumerate 0 selected))), w))))"

definition tool_write :: "jslib \<Rightarrow> 'w sys \<Rightarrow> ToolArgs \<Rightarrow> 'w \<Rightarrow> 'w outcome" where
  "tool_write lib sys args w =
     (case getPath args of Inl e \<Rightarrow> Some (Inl e, w)
      | Inr p \<Rightarrow>
        (case file_write sys p (arg args ''content'') w of Inl e \<Rightarrow> Some (Inl e, w)
         | Inr w' \<Rightarrow> Some (Inr ''ok'', w')))"

definition split_count :: "jslib \<Rightarrow> string \<Rightarrow> jsval \<Rightarrow> int" where
  \<comment> \<open>\<^verbatim>\<open>text.split(oldString).length - 1\<close>; an \<^verbatim>\<open>undefined\<close> separator does not split\<close>
  "split_count lib t oldString =
     int (length (if oldString = JUndefined then [t]
                  else String_split t (ToString lib oldString))) - 1"

definition tool_edit :: "jslib \<Rightarrow> 'w sys \<Rightarrow> ToolArgs \<Rightarrow> 'w \<Rightarrow> 'w outcome" where
  "tool_edit lib sys args w =
     (case getPath args of Inl e \<Rightarrow> Some (Inl e, w)
      | Inr p \<Rightarrow>
        (case file_text sys p w of Inl e \<Rightarrow> Some (Inl e, w)
         | Inr text \<Rightarrow>
           (let oldString = arg args ''old'' in
            if \<not> String_includes text (ToString lib oldString)
            then Some (Inr ''error: old_string not found'', w)
            else
              (let count = split_count lib text oldString in
               if \<not> truthy (arg args ''all'') \<and> count > 1
               then Some (Inr (''error: old_string appears '' @ show_int count
                               @ '' times, use all=true''), w)
               else
                 (case file_write sys p
                    (JStr (if truthy (arg args ''all'')
                           then String_replaceAll lib text (ToString lib oldString)
                                  (ToString lib (arg args ''new''))
                           else String_replace lib text (ToString lib oldString)
                                  (ToString lib (arg args ''new'')))) w
                  of Inl e \<Rightarrow> Some (Inl e, w)
                  | Inr w' \<Rightarrow> Some (Inr ''ok'', w'))))))"

definition mtime_of :: "fault + file_stat option \<Rightarrow> real" where
  \<comment> \<open>\<^verbatim>\<open>fileStat?.mtime?.getTime() ?? 0\<close>, and 0 when \<^verbatim>\<open>stat\<close> throws\<close>
  "mtime_of r =
     (case r of Inl e \<Rightarrow> 0 | Inr None \<Rightarrow> 0
      | Inr (Some st) \<Rightarrow> (case mtime st of None \<Rightarrow> 0 | Some t \<Rightarrow> t))"

definition or_else :: "string \<Rightarrow> string \<Rightarrow> string" where
  \<comment> \<open>\<^verbatim>\<open>s || d\<close> on strings: the empty string is falsy\<close>
  "or_else s d = (if s = [] then d else s)"

definition tool_glob :: "jslib \<Rightarrow> 'w sys \<Rightarrow> ToolArgs \<Rightarrow> 'w \<Rightarrow> 'w outcome" where
  "tool_glob lib sys args w =
     (case glob_scan sys (arg args ''pattern'') (nullish (arg args ''path'') (JStr ''.'')) w of
        Inl e \<Rightarrow> Some (Inl e, w)
      | Inr paths \<Rightarrow>
        (let files = map (\<lambda>filepath. (filepath, mtime_of (file_stat sys filepath w)))
                       (filter (\<lambda>filepath. \<not> shouldIgnore filepath) paths)
         in Some (Inr (or_else (Array_join [CHR 0x0A]
                        (map fst (sort_key (\<lambda>file. - snd file) files))) ''none''), w)))"

definition reached :: "jsnum \<Rightarrow> 'a list \<Rightarrow> bool" where
  \<comment> \<open>\<^verbatim>\<open>hits.length >= GREP_LIMIT\<close>\<close>
  "reached limit hits =
     (case limit of NaN \<Rightarrow> False | PosInf \<Rightarrow> False | NegInf \<Rightarrow> True
      | Fin r \<Rightarrow> r \<le> real (length hits))"

fun grep_lines ::
  "jslib \<Rightarrow> (string \<Rightarrow> bool) \<Rightarrow> jsnum \<Rightarrow> string \<Rightarrow> nat \<Rightarrow> string list \<Rightarrow> string list
     \<Rightarrow> string list" where
  "grep_lines lib test limit filepath index [] hits = hits"
| "grep_lines lib test limit filepath index (line # lines) hits =
     (if test line
      then (let hits' = hits @ [filepath @ '':'' @ show_nat (index + 1) @ '':''
                                @ String_trimEnd lib line]
            in if reached limit hits' then hits'
               else grep_lines lib test limit filepath (Suc index) lines hits')
      else grep_lines lib test limit filepath (Suc index) lines hits)"

fun grep_files ::
  "jslib \<Rightarrow> 'w sys \<Rightarrow> 'w \<Rightarrow> (string \<Rightarrow> bool) \<Rightarrow> jsnum \<Rightarrow> string list \<Rightarrow> string list
     \<Rightarrow> string list" where
  "grep_files lib sys w test limit [] hits = hits"
| "grep_files lib sys w test limit (filepath # rest) hits =
     (if shouldIgnore filepath then grep_files lib sys w test limit rest hits
      else
        (case file_stat sys filepath w of
           Inl e \<Rightarrow> grep_files lib sys w test limit rest hits
         | Inr None \<Rightarrow> grep_files lib sys w test limit rest hits
         | Inr (Some st) \<Rightarrow>
           (if isDirectory st then grep_files lib sys w test limit rest hits
            else
              (case file_text sys (JStr filepath) w of
                 Inl e \<Rightarrow> grep_files lib sys w test limit rest hits
               | Inr text \<Rightarrow>
                 (let hits' = grep_lines lib test limit filepath 0
                                (String_split text [CHR 0x0A]) hits
                  in if reached limit hits' then hits'
                     else grep_files lib sys w test limit rest hits')))))"

definition tool_grep :: "config \<Rightarrow> jslib \<Rightarrow> 'w sys \<Rightarrow> ToolArgs \<Rightarrow> 'w \<Rightarrow> 'w outcome" where
  "tool_grep cfg lib sys args w =
     (case RegExp_new lib (arg args ''pattern'') of Inl e \<Rightarrow> Some (Inl e, w)
      | Inr test \<Rightarrow>
        (case glob_scan sys (JStr ''**/*'') (nullish (arg args ''path'') (JStr ''.'')) w of
           Inl e \<Rightarrow> Some (Inl e, w)
         | Inr paths \<Rightarrow>
           Some (Inr (or_else (Array_join [CHR 0x0A]
                   (grep_files lib sys w test (GREP_LIMIT cfg) paths [])) ''none''), w)))"

subsection \<open>The subprocess execution engine\<close>

definition prefix_of :: "channel \<Rightarrow> string" where
  "prefix_of c = (case c of Stdout \<Rightarrow> ''[stdout] '' | Stderr \<Rightarrow> ''[stderr] '')"

definition pushed :: "jslib \<Rightarrow> string \<Rightarrow> bytes list \<Rightarrow> bytes \<Rightarrow> string list" where
  \<comment> \<open>the body of the loop of \<^verbatim>\<open>readStream\<close>: what one chunk appends to \<^verbatim>\<open>output\<close>\<close>
  "pushed lib prefix seen v =
     map (\<lambda>line. prefix @ line)
       (filter (\<lambda>l. l \<noteq> []) (String_split (TextDecoder_decode lib seen v) [CHR 0x0A]))"

fun readStream :: "jslib \<Rightarrow> string \<Rightarrow> bytes list \<Rightarrow> bytes list \<Rightarrow> string list" where
  \<comment> \<open>one reader alone: \<open>seen\<close> are the chunks already decoded\<close>
  "readStream lib prefix seen [] = []"
| "readStream lib prefix seen (v # rest) =
     pushed lib prefix seen v @ readStream lib prefix (seen @ [v]) rest"

fun drain :: "jslib \<Rightarrow> bytes list \<Rightarrow> bytes list \<Rightarrow> (channel \<times> bytes) list \<Rightarrow> string list" where
  \<comment> \<open>the two readers under \<^verbatim>\<open>Promise.all\<close>, resumed in the order in which chunks arrive\<close>
  "drain lib so se [] = []"
| "drain lib so se ((Stdout, v) # evs) =
     pushed lib (prefix_of Stdout) so v @ drain lib (so @ [v]) se evs"
| "drain lib so se ((Stderr, v) # evs) =
     pushed lib (prefix_of Stderr) se v @ drain lib so (se @ [v]) evs"

definition timeoutMs :: "jslib \<Rightarrow> jsval \<Rightarrow> jsnum" where
  "timeoutMs lib raw = Math_min (Math_max (ToNumber lib raw) (Fin 1000)) (Fin 300000)"

definition exec_result :: "jslib \<Rightarrow> jsnum \<Rightarrow> string list \<Rightarrow> bool \<Rightarrow> int option \<Rightarrow> string" where
  "exec_result lib t output killed code =
     (let result = or_else (Array_join [CHR 0x0A] output) ''(no output)''
      in if killed then result @ [CHR 0x0A] @ ''[TIMEOUT after '' @ Number_toString lib t @ ''ms]''
         else result @ [CHR 0x0A] @ ''[exit: ''
              @ (case code of None \<Rightarrow> ''null'' | Some c \<Rightarrow> show_int c) @ '']'')"

definition tool_exec :: "config \<Rightarrow> jslib \<Rightarrow> 'w sys \<Rightarrow> ToolArgs \<Rightarrow> 'w \<Rightarrow> 'w outcome" where
  "tool_exec cfg lib sys args w =
     (let t = timeoutMs lib (arg args ''timeout'') in
      case spawn sys (SHELL cfg @ [arg args ''command'']) w of Inl e \<Rightarrow> Some (Inl e, w)
      | Inr proc \<Rightarrow>
        (case proc t of None \<Rightarrow> None
         | Some h \<Rightarrow>
           Some (Inr (exec_result lib t (drain lib [] [] (chunks h)) (timer_fired h) (exitCode h)),
                 world_after h)))"

subsection \<open>Directory listing and filesystem mutation\<close>

fun listDir :: "bool \<Rightarrow> string \<Rightarrow> dirlisting \<Rightarrow> fault + string list"
  and listEntries :: "bool \<Rightarrow> string \<Rightarrow> dirent list \<Rightarrow> fault + string list" where
  "listDir recursive prefix (ReaddirFault e) = Inl e"
| "listDir recursive prefix (Entries es) = listEntries recursive prefix es"
| "listEntries recursive prefix [] = Inr []"
| "listEntries recursive prefix (Dirent name isDir fullPath sub # es) =
     (if shouldIgnore fullPath \<and> isDir then listEntries recursive prefix es
      else
        (case (if isDir \<and> recursive then listDir recursive (prefix @ ''  '') sub else Inr []) of
           Inl e \<Rightarrow> Inl e
         | Inr below \<Rightarrow>
           (case listEntries recursive prefix es of Inl e \<Rightarrow> Inl e
            | Inr rest \<Rightarrow>
              Inr ((prefix @ name @ (if isDir then ''/'' else [])) # below @ rest))))"

definition tool_list :: "jslib \<Rightarrow> 'w sys \<Rightarrow> ToolArgs \<Rightarrow> 'w \<Rightarrow> 'w outcome" where
  "tool_list lib sys args w =
     (case getPath args of Inl e \<Rightarrow> Some (Inr (''error: '' @ err_message e), w)
      | Inr p \<Rightarrow>
        (case listDir (truthy (arg args ''recursive'')) [] (readdir sys p w) of
           Inl e \<Rightarrow> Some (Inr (''error: '' @ err_message e), w)
         | Inr results \<Rightarrow> Some (Inr (or_else (Array_join [CHR 0x0A] results) ''(empty)''), w)))"

definition tool_delete :: "jslib \<Rightarrow> 'w sys \<Rightarrow> ToolArgs \<Rightarrow> 'w \<Rightarrow> 'w outcome" where
  "tool_delete lib sys args w =
     (case getPath args of Inl e \<Rightarrow> Some (Inr (''error: '' @ err_message e), w)
      | Inr filepath \<Rightarrow>
        (case fs_stat sys filepath w of Inl e \<Rightarrow> Some (Inr (''error: '' @ err_message e), w)
         | Inr isDir \<Rightarrow>
           (case (if isDir then fs_rm sys filepath (truthy (arg args ''recursive'')) w
                  else fs_unlink sys filepath w) of
              Inl e \<Rightarrow> Some (Inr (''error: '' @ err_message e), w)
            | Inr w' \<Rightarrow> Some (Inr (''Deleted: '' @ ToString lib filepath), w'))))"

definition tool_move :: "jslib \<Rightarrow> 'w sys \<Rightarrow> ToolArgs \<Rightarrow> 'w \<Rightarrow> 'w outcome" where
  "tool_move lib sys args w =
     (case fs_rename sys (arg args ''from'') (arg args ''to'') w of
        Inl e \<Rightarrow> Some (Inr (''error: '' @ err_message e), w)
      | Inr w' \<Rightarrow>
        Some (Inr (''Moved: '' @ ToString lib (arg args ''from'') @ '' -> ''
                   @ ToString lib (arg args ''to'')), w'))"

definition tool_copy :: "jslib \<Rightarrow> 'w sys \<Rightarrow> ToolArgs \<Rightarrow> 'w \<Rightarrow> 'w outcome" where
  "tool_copy lib sys args w =
     (case fs_stat sys (arg args ''from'') w of
        Inl e \<Rightarrow> Some (Inr (''error: '' @ err_message e), w)
      | Inr isDir \<Rightarrow>
        (case (if isDir
               then fs_cp sys (arg args ''from'') (arg args ''to'')
                      (truthy (arg args ''recursive'')) w
               else fs_copyFile sys (arg args ''from'') (arg args ''to'') w) of
           Inl e \<Rightarrow> Some (Inr (''error: '' @ err_message e), w)
         | Inr w' \<Rightarrow>
           Some (Inr (''Copied: '' @ ToString lib (arg args ''from'') @ '' -> ''
                      @ ToString lib (arg args ''to'')), w')))"

section \<open>The capability registry\<close>

type_synonym 'w Tool =
  "string \<times> (string \<times> string) list \<times> (ToolArgs \<Rightarrow> 'w \<Rightarrow> 'w outcome)"

definition TOOLS :: "config \<Rightarrow> jslib \<Rightarrow> 'w sys \<Rightarrow> (string \<times> 'w Tool) list" where
  "TOOLS cfg lib sys =
     [(''read'', ''Read file with line numbers'',
         [(''path'', ''string''), (''offset'', ''number?''), (''limit'', ''number?'')],
         tool_read lib sys),
      (''write'', ''Write content to file'',
         [(''path'', ''string''), (''content'', ''string'')],
         tool_write lib sys),
      (''edit'', ''Replace old with new in file'',
         [(''path'', ''string''), (''old'', ''string''), (''new'', ''string''),
          (''all'', ''boolean?'')],
         tool_edit lib sys),
      (''glob'', ''Find files by pattern'',
         [(''pattern'', ''string''), (''path'', ''string?'')],
         tool_glob lib sys),
      (''grep'', ''Search files for regex'',
         [(''pattern'', ''string''), (''path'', ''string?'')],
         tool_grep cfg lib sys),
      (''exec'', ''Execute shell command with live output and timeout'',
         [(''command'', ''string''), (''timeout'', ''number'')],
         tool_exec cfg lib sys),
      (''list'', ''List directory'',
         [(''path'', ''string''), (''recursive'', ''boolean?'')],
         tool_list lib sys),
      (''delete'', ''Delete file/directory'',
         [(''path'', ''string''), (''recursive'', ''boolean?'')],
         tool_delete lib sys),
      (''move'', ''Move or rename'',
         [(''from'', ''string''), (''to'', ''string'')],
         tool_move lib sys),
      (''copy'', ''Copy file/directory'',
         [(''from'', ''string''), (''to'', ''string''), (''recursive'', ''boolean?'')],
         tool_copy lib sys)]"

text \<open>
  \<^verbatim>\<open>TOOLS\<close> is an object literal, so \<^verbatim>\<open>TOOLS[name]\<close> also finds the properties that every
  object inherits. Such a property is truthy and has no element 2: the call throws a
  \<^verbatim>\<open>TypeError\<close>, which the \<^verbatim>\<open>catch\<close> of \<^verbatim>\<open>runTool\<close> turns into text.
\<close>

definition Object_prototype_keys :: "string list" where
  "Object_prototype_keys =
     [''constructor'', ''hasOwnProperty'', ''isPrototypeOf'', ''propertyIsEnumerable'',
      ''toLocaleString'', ''toString'', ''valueOf'', ''__proto__'', ''__defineGetter__'',
      ''__defineSetter__'', ''__lookupGetter__'', ''__lookupSetter__'']"

definition runTool ::
  "config \<Rightarrow> jslib \<Rightarrow> 'w sys \<Rightarrow> string \<Rightarrow> ToolArgs \<Rightarrow> 'w \<Rightarrow> (string \<times> 'w) option" where
  "runTool cfg lib sys name args w =
     (case map_of (TOOLS cfg lib sys) name of
        Some (description, params, handler) \<Rightarrow>
          (case handler args w of None \<Rightarrow> None
           | Some (Inr t, w') \<Rightarrow> Some (t, w')
           | Some (Inl e, w') \<Rightarrow> Some (''error: '' @ Error_toString e, w'))
      | None \<Rightarrow>
          (if name \<in> set Object_prototype_keys
           then Some (''error: ''
                      @ Error_toString (JSError ''TypeError'' (not_callable_message lib)), w)
           else Some (''error: unknown tool '' @ name, w)))"

record input_schema =
  schema_type :: string
  properties :: "(string \<times> string) list"
  required :: "string list"

record tool_schema =
  schema_name :: string
  schema_description :: string
  schema_input :: input_schema

definition exposed_type :: "jslib \<Rightarrow> string \<Rightarrow> string" where
  "exposed_type lib v =
     (if String_replace lib v ''?'' [] = ''number'' then ''integer''
      else String_replace lib v ''?'' [])"

definition schema_of :: "jslib \<Rightarrow> string \<times> 'w Tool \<Rightarrow> tool_schema" where
  "schema_of lib = (\<lambda>(name, description, params, handler).
       \<lparr>schema_name = name, schema_description = description,
        schema_input =
          \<lparr>schema_type = ''object'',
           properties = map (\<lambda>(key, v). (key, exposed_type lib v)) params,
           required = map fst (filter (\<lambda>(key, v). \<not> String_endsWith v ''?'') params)\<rparr>\<rparr>)"

definition makeSchema :: "config \<Rightarrow> jslib \<Rightarrow> 'w sys \<Rightarrow> tool_schema list" where
  "makeSchema cfg lib sys = map (schema_of lib) (TOOLS cfg lib sys)"

section \<open>The agent orchestrator\<close>

record ContentBlock =
  block_type :: string
  block_text :: "string option"
  block_id :: "string option"
  block_name :: "string option"
  block_input :: "ToolArgs option"

record ToolResult =
  result_type :: string
  tool_use_id :: string
  result_content :: string

datatype message_content = Text string | Blocks "ContentBlock list" | Results "ToolResult list"

record Message =
  role :: string
  content :: message_content

record usage =
  input_tokens :: int
  output_tokens :: int

record APIResponse =
  response_content :: "ContentBlock list option"
  response_error :: "string option"
  response_usage :: "usage option"

text \<open>
  \<^verbatim>\<open>main\<close> is cut at the points where it waits: for a line of input (\<open>Idle\<close>) and for the
  answer of \<^verbatim>\<open>callAPI\<close> (\<open>InFlight\<close>). The state holds the variables of \<^verbatim>\<open>main\<close>, the
  process-wide flag \<^verbatim>\<open>stopRequested\<close>, the state of the system the tools act on, and
  \<open>sent\<close>, the history passed to each \<^verbatim>\<open>callAPI\<close> so far.
\<close>

datatype phase = Idle | InFlight | Exited

record 'w session =
  messages :: "Message list"
  totalInputTokens :: int
  totalOutputTokens :: int
  stopRequested :: bool
  phase :: phase
  world :: 'w
  sent :: "Message list list"

text \<open>
  What happens to the process: a line read from the console, the two signals, and the
  return of the pending \<^verbatim>\<open>callAPI\<close> with a response or a thrown fault. The flag is read
  only by the \<^verbatim>\<open>while\<close> condition, after the tools of a round have run, so a \<open>Sigint\<close>
  that arrives while they run has the effect of one that arrives just before the reply.
\<close>

datatype event = Line string | Sigint | Sigterm | Reply "fault + APIResponse"

definition init :: "'w \<Rightarrow> 'w session" where
  "init w = \<lparr>messages = [], totalInputTokens = 0, totalOutputTokens = 0,
            stopRequested = False, phase = Idle, world = w, sent = []\<rparr>"

definition dispatched :: "ContentBlock \<Rightarrow> bool" where
  \<comment> \<open>the guard \<^verbatim>\<open>block.type === "tool_use" && block.name && block.input && block.id\<close>\<close>
  "dispatched b =
     (block_type b = ''tool_use'' \<and> block_name b \<noteq> None \<and> block_name b \<noteq> Some []
      \<and> block_input b \<noteq> None \<and> block_id b \<noteq> None \<and> block_id b \<noteq> Some [])"

fun run_blocks ::
  "config \<Rightarrow> jslib \<Rightarrow> 'w sys \<Rightarrow> ContentBlock list \<Rightarrow> 'w \<Rightarrow> (ToolResult list \<times> 'w) option" where
  "run_blocks cfg lib sys [] w = Some ([], w)"
| "run_blocks cfg lib sys (b # bs) w =
     (if dispatched b
      then (case runTool cfg lib sys (the (block_name b)) (the (block_input b)) w of
              None \<Rightarrow> None
            | Some (result, w') \<Rightarrow>
              (case run_blocks cfg lib sys bs w' of None \<Rightarrow> None
               | Some (rs, w'') \<Rightarrow>
                 Some (\<lparr>result_type = ''tool_result'', tool_use_id = the (block_id b),
                        result_content = result\<rparr> # rs, w'')))
      else run_blocks cfg lib sys bs w)"

definition response_blocks :: "APIResponse \<Rightarrow> ContentBlock list" where
  \<comment> \<open>the destructuring \<^verbatim>\<open>{content: blocks = []}\<close>\<close>
  "response_blocks resp = (case response_content resp of None \<Rightarrow> [] | Some bs \<Rightarrow> bs)"

definition respond ::
  "config \<Rightarrow> jslib \<Rightarrow> 'w sys \<Rightarrow> APIResponse \<Rightarrow> 'w session \<Rightarrow> 'w session option" where
  \<comment> \<open>the body of the \<^verbatim>\<open>while\<close> loop after \<^verbatim>\<open>callAPI\<close> has returned, up to the next call\<close>
  "respond cfg lib sys resp s =
     (let blocks = response_blocks resp;
          s1 = (case response_usage resp of None \<Rightarrow> s
                | Some u \<Rightarrow> s\<lparr>totalInputTokens := totalInputTokens s + input_tokens u,
                              totalOutputTokens := totalOutputTokens s + output_tokens u\<rparr>)
      in case run_blocks cfg lib sys blocks (world s) of None \<Rightarrow> None
         | Some (toolResults, w') \<Rightarrow>
           (let s2 = s1\<lparr>world := w',
                        messages := messages s1 @ [\<lparr>role = ''assistant'', content = Blocks blocks\<rparr>]\<rparr>
            in if toolResults = [] then Some (s2\<lparr>phase := Idle\<rparr>)
               else
                 (let s3 = s2\<lparr>messages := messages s2
                                @ [\<lparr>role = ''user'', content = Results toolResults\<rparr>]\<rparr>
                  in if stopRequested s3 then Some (s3\<lparr>phase := Idle\<rparr>)
                     else Some (s3\<lparr>sent := sent s3 @ [messages s3]\<rparr>))))"

definition step ::
  "config \<Rightarrow> jslib \<Rightarrow> 'w sys \<Rightarrow> 'w session \<Rightarrow> event \<Rightarrow> 'w session option" where
  \<comment> \<open>\<open>None\<close>: the event cannot happen in this phase, or a tool never returns\<close>
  "step cfg lib sys s ev =
     (case phase s of
        Exited \<Rightarrow> None
      | Idle \<Rightarrow>
        (case ev of
           Sigint \<Rightarrow> Some (s\<lparr>stopRequested := True\<rparr>)
         | Sigterm \<Rightarrow> Some (s\<lparr>phase := Exited\<rparr>)
         | Reply r \<Rightarrow> None
         | Line line \<Rightarrow>
           (let userInput = String_trim lib line in
            if userInput = ''/q'' \<or> userInput = ''exit'' then Some (s\<lparr>phase := Exited\<rparr>)
            else if userInput = ''/c''
            then Some (s\<lparr>messages := [], totalInputTokens := 0, totalOutputTokens := 0\<rparr>)
            else if userInput = [] then Some s
            else
              (let ms = messages s @ [\<lparr>role = ''user'', content = Text userInput\<rparr>]
               in Some (s\<lparr>messages := ms, stopRequested := False, phase := InFlight,
                          sent := sent s @ [ms]\<rparr>))))
      | InFlight \<Rightarrow>
        (case ev of
           Sigint \<Rightarrow> Some (s\<lparr>stopRequested := True\<rparr>)
         | Sigterm \<Rightarrow> Some (s\<lparr>phase := Exited\<rparr>)
         | Line line \<Rightarrow> None
         | Reply (Inl e) \<Rightarrow> Some (s\<lparr>phase := Idle\<rparr>)
         | Reply (Inr resp) \<Rightarrow> respond cfg lib sys resp s))"

fun run ::
  "config \<Rightarrow> jslib \<Rightarrow> 'w sys \<Rightarrow> 'w session \<Rightarrow> event list \<Rightarrow> 'w session option" where
  "run cfg lib sys s [] = Some s"
| "run cfg lib sys s (ev # evs) =
     (case step cfg lib sys s ev of None \<Rightarrow> None | Some s' \<Rightarrow> run cfg lib sys s' evs)"

section \<open>Notions used to state the properties\<close>

definition within_bounds :: "jsnum \<Rightarrow> bool" where
  \<comment> \<open>the inclusive range of 1000 to 300000 milliseconds\<close>
  "within_bounds n = (case n of Fin r \<Rightarrow> 1000 \<le> r \<and> r \<le> 300000 | _ \<Rightarrow> False)"


definition chunks_of :: "channel \<Rightarrow> (channel \<times> bytes) list \<Rightarrow> bytes list" where
  "chunks_of c evs = map snd (filter (\<lambda>ev. fst ev = c) evs)"

definition tagged :: "channel \<Rightarrow> string list \<Rightarrow> string list" where
  \<comment> \<open>the entries of a transcript that carry the prefix of the channel\<close>
  "tagged c output = filter (\<lambda>entry. String_startsWith entry (prefix_of c)) output"

fun decoded_stream :: "jslib \<Rightarrow> bytes list \<Rightarrow> bytes list \<Rightarrow> string" where
  \<comment> \<open>the text that the decoder of one reader returns over all its chunks\<close>
  "decoded_stream lib seen [] = []"
| "decoded_stream lib seen (v # rest) =
     TextDecoder_decode lib seen v @ decoded_stream lib (seen @ [v]) rest"

definition complete_lines :: "string \<Rightarrow> string list" where
  \<comment> \<open>the lines of a text that are closed by a newline\<close>
  "complete_lines t = butlast (String_split t [CHR 0x0A])"

fun occurrences_scan :: "char \<Rightarrow> string \<Rightarrow> string \<Rightarrow> nat" where
  "occurrences_scan p ps [] = 0"
| "occurrences_scan p ps (c # cs) =
     (if String_startsWith (c # cs) (p # ps) then Suc (occurrences_scan p ps (drop (length ps) cs))
      else occurrences_scan p ps cs)"

definition occurrences :: "string \<Rightarrow> string \<Rightarrow> nat" where
  \<comment> \<open>how often a non-empty string occurs in a text, counted from the left without overlap\<close>
  "occurrences t s = (case s of [] \<Rightarrow> 0 | p # ps \<Rightarrow> occurrences_scan p ps t)"

definition has_sentinel :: "string \<Rightarrow> bool" where
  \<comment> \<open>a declared type that ends with the optional sentinel\<close>
  "has_sentinel v = (v \<noteq> [] \<and> last v = CHR ''?'')"

definition numbered :: "string list \<Rightarrow> string list" where
  \<comment> \<open>every line behind its number, counted from 1 and padded to four columns\<close>
  "numbered ls =
     map (\<lambda>(i, l). String_padStart 4 (show_nat (Suc i)) @ ''| '' @ l) (enumerate 0 ls)"

definition invocation_segments :: "Message list \<Rightarrow> ContentBlock list" where
  \<comment> \<open>all segments of a conversation that are tagged as invocations\<close>
  "invocation_segments ms =
     concat (map (\<lambda>m. case content m of Blocks bs \<Rightarrow> filter (\<lambda>b. block_type b = ''tool_use'') bs
                       | _ \<Rightarrow> []) ms)"

definition result_segments :: "Message list \<Rightarrow> ToolResult list" where
  "result_segments ms =
     concat (map (\<lambda>m. case content m of Results rs \<Rightarrow> rs | _ \<Rightarrow> []) ms)"

definition invocation_ids :: "Message \<Rightarrow> string list" where
  \<comment> \<open>the identifiers of the invocations of a turn that pass the guard of the loop\<close>
  "invocation_ids m =
     (case content m of Blocks bs \<Rightarrow> map (\<lambda>b. the (block_id b)) (filter dispatched bs)
      | _ \<Rightarrow> [])"

definition result_ids :: "Message \<Rightarrow> string list" where
  "result_ids m = (case content m of Results rs \<Rightarrow> map tool_use_id rs | _ \<Rightarrow> [])"

fun paired :: "Message list \<Rightarrow> bool" where
  \<comment> \<open>a turn with invocations is directly followed by the turn of their results, one
      per invocation, in the same order and with the same identifiers; no other turn
      holds results\<close>
  "paired [] = True"
| "paired [m] = (result_ids m = [] \<and> invocation_ids m = [])"
| "paired (m # r # ms) =
     (result_ids m = []
      \<and> (if invocation_ids m = [] then paired (r # ms)
         else result_ids r = invocation_ids m \<and> invocation_ids r = [] \<and> paired ms))"



definition is_request :: "jslib \<Rightarrow> event \<Rightarrow> bool" where
  \<comment> \<open>a line that, once trimmed, is neither empty nor a command\<close>
  "is_request lib ev =
     (case ev of Line l \<Rightarrow> String_trim lib l \<notin> {[], ''/q'', ''exit'', ''/c''} | _ \<Rightarrow> False)"

definition numeric_type :: "string \<Rightarrow> bool" where
  \<comment> \<open>a parameter declared as a number, optional or not\<close>
  "numeric_type v = (v = ''number'' \<or> v = ''number?'')"

definition describes :: "string \<times> 'w Tool \<Rightarrow> tool_schema \<Rightarrow> bool" where
  \<comment> \<open>the schema entry of a capability: its name, its parameters in order, as required
      exactly those declared without the sentinel, and every numeric one as an integer\<close>
  "describes tool e =
     (case tool of (name, description, params, handler) \<Rightarrow>
        schema_name e = name
        \<and> schema_description e = description
        \<and> schema_type (schema_input e) = ''object''
        \<and> map fst (properties (schema_input e)) = map fst params
        \<and> required (schema_input e) = map fst (filter (\<lambda>(k, v). \<not> has_sentinel v) params)
        \<and> (\<forall>(k, v) \<in> set params.
              numeric_type v \<longrightarrow> (k, ''integer'') \<in> set (properties (schema_input e))))"

definition assistant_turn :: "APIResponse \<Rightarrow> Message" where
  "assistant_turn resp = \<lparr>role = ''assistant'', content = Blocks (response_blocks resp)\<rparr>"

definition results_turn :: "ToolResult list \<Rightarrow> Message" where
  "results_turn rs = \<lparr>role = ''user'', content = Results rs\<rparr>"

definition user_turn :: "jslib \<Rightarrow> string \<Rightarrow> Message" where
  "user_turn lib line = \<lparr>role = ''user'', content = Text (String_trim lib line)\<rparr>"

definition session_inv :: "'w session \<Rightarrow> bool" where
  "session_inv s = (paired (messages s) \<and> (\<forall>h \<in> set (sent s). paired h))"

section \<open>A sample environment for concrete runs\<close>

text \<open>
  The defaults of the configuration, a runtime that is exact on the inputs of the runs
  below (ASCII text, where \<^verbatim>\<open>trim\<close> strips the six white space characters of ASCII; no
  numeric strings, no \<^verbatim>\<open>$\<close> in replacements), and a system that is
  a map from file names to contents with three processes: \<^verbatim>\<open>sleep 5\<close>, silent and done
  after 5000 milliseconds unless the timer fires first; a shell loop that traps the
  termination signal, so that \<^verbatim>\<open>proc.kill()\<close> does not end it and its channels never close;
  and one that prints \<^verbatim>\<open>hello\<close> in two chunks and exits at once.
\<close>

definition default_config :: config where
  "default_config =
     \<lparr>API_URL = ''http://127.0.0.1:8045/v1/messages'', MODEL = ''claude-opus-4-5'',
      GREP_LIMIT = Fin 50, MAX_FILE_SIZE = Fin 10485760, IS_WINDOWS = False\<rparr>"

definition is_space :: "char \<Rightarrow> bool" where
  \<comment> \<open>the white space and line terminators of ASCII\<close>
  "is_space c = (c \<in> set [CHR '' '', CHR 0x09, CHR 0x0A, CHR 0x0B, CHR 0x0C, CHR 0x0D])"

definition trimEnd_ascii :: "string \<Rightarrow> string" where
  "trimEnd_ascii s = rev (dropWhile is_space (rev s))"

definition trim_ascii :: "string \<Rightarrow> string" where
  "trim_ascii s = trimEnd_ascii (dropWhile is_space s)"

definition sample_lib :: jslib where
  "sample_lib =
     \<lparr>StringToNumber = (\<lambda>s. NaN),
      NumberToString_other = (\<lambda>r. ''0.5''),
      fp_add = (\<lambda>x y. Fin (x + y)),
      TextDecoder_decode = (\<lambda>seen v. v),
      GetSubstitution_dollar = (\<lambda>matched t pos repl. repl),
      RegExp_new = (\<lambda>p. Inl (JSError ''SyntaxError'' ''Invalid regular expression'')),
      String_trim = trim_ascii,
      String_trimEnd = trimEnd_ascii,
      not_callable_message = ''TOOLS[name][2] is not a function''\<rparr>"

definition hello_process :: "'w \<Rightarrow> jsnum \<Rightarrow> 'w proc_history option" where
  "hello_process w t =
     Some \<lparr>chunks = [(Stdout, ''hel''), (Stdout, ''lo'' @ [CHR 0x0A])], timer_fired = False,
           exitCode = Some 0, world_after = w\<rparr>"

definition sleep_process :: "'w \<Rightarrow> jsnum \<Rightarrow> 'w proc_history option" where
  "sleep_process w t =
     Some \<lparr>chunks = [], timer_fired = (case t of Fin r \<Rightarrow> r < 5000 | _ \<Rightarrow> True),
           exitCode = (case t of Fin r \<Rightarrow> if r < 5000 then None else Some 0 | _ \<Rightarrow> None),
           world_after = w\<rparr>"

definition stuck_command :: string where
  "stuck_command = ''trap : TERM; while :; do sleep 1; done''"

definition stuck_process :: "jsnum \<Rightarrow> 'w proc_history option" where
  "stuck_process t = None"

definition invoke :: "string \<Rightarrow> string \<Rightarrow> ContentBlock" where
  \<comment> \<open>an invocation segment without arguments\<close>
  "invoke i n = \<lparr>block_type = ''tool_use'', block_text = None, block_id = Some i,
                 block_name = Some n, block_input = Some Map.empty\<rparr>"

definition reply :: "ContentBlock list \<Rightarrow> (int \<times> int) option \<Rightarrow> event" where
  \<comment> \<open>the transport returns these segments and this usage\<close>
  "reply bs u =
     Reply (Inr \<lparr>response_content = Some bs, response_error = None,
                  response_usage = map_option (\<lambda>(tin, tout). \<lparr>input_tokens = tin, output_tokens = tout\<rparr>) u\<rparr>)"

definition say :: "string \<Rightarrow> ContentBlock" where
  "say t = \<lparr>block_type = ''text'', block_text = Some t, block_id = None, block_name = None,
            block_input = None\<rparr>"

definition unsupported :: fault where
  "unsupported = JSError ''Error'' ''ENOSYS: function not implemented''"

definition sample_sys :: "(string \<rightharpoonup> string) sys" where
  "sample_sys =
     \<lparr>file_text = (\<lambda>p w. case p of
          JStr f \<Rightarrow> (case w f of Some t \<Rightarrow> Inr t
                     | None \<Rightarrow> Inl (JSError ''Error'' ''ENOENT: no such file or directory''))
        | _ \<Rightarrow> Inl unsupported),
      file_write = (\<lambda>p d w. case (p, d) of (JStr f, JStr t) \<Rightarrow> Inr (w(f \<mapsto> t))
        | _ \<Rightarrow> Inl unsupported),
      file_stat = (\<lambda>f w. Inl unsupported),
      glob_scan = (\<lambda>pat cwd w. Inl unsupported),
      readdir = (\<lambda>p w. ReaddirFault unsupported),
      fs_stat = (\<lambda>p w. Inl unsupported),
      fs_rm = (\<lambda>p r w. Inl unsupported),
      fs_unlink = (\<lambda>p w. Inl unsupported),
      fs_rename = (\<lambda>a b w. Inl unsupported),
      fs_cp = (\<lambda>a b r w. Inl unsupported),
      fs_copyFile = (\<lambda>a b w. Inl unsupported),
      spawn = (\<lambda>cmd w. if cmd = [JStr ''sh'', JStr ''-c'', JStr ''sleep 5'']
                        then Inr (sleep_process w)
                        else if cmd = [JStr ''sh'', JStr ''-c'', JStr stuck_command]
                        then Inr stuck_process
                        else Inr (hello_process w))\<rparr>"

section \<open>The timeout bound of the execution engine\<close>

lemma Math_clamp_cases:
  "Math_min (Math_max n (Fin 1000)) (Fin 300000) =
     (case n of NaN \<Rightarrow> NaN | NegInf \<Rightarrow> Fin 1000 | PosInf \<Rightarrow> Fin 300000
      | Fin r \<Rightarrow> Fin (min (max r 1000) 300000))"
  by (cases n) simp_all

text \<open>
  Claim C2, as the code has it. \<^verbatim>\<open>Math.max\<close> and \<^verbatim>\<open>Math.min\<close> convert their arguments to
  numbers and return NaN as soon as one of them is NaN. The effective bound therefore
  lies in the inclusive range of 1000 to 300000 exactly when the raw input converts to a
  number: for every numeric input (negative, zero, fractional, excessively large or
  infinite), for \<^verbatim>\<open>null\<close> and for booleans. For an input that converts to NaN, such as a
  missing timeout, the bound is NaN and lies outside the range.
\<close>

theorem timeoutMs_within_bounds:
  "within_bounds (timeoutMs lib raw) \<longleftrightarrow> ToNumber lib raw \<noteq> NaN"
  unfolding timeoutMs_def Math_clamp_cases within_bounds_def
  by (cases "ToNumber lib raw") auto

theorem timeoutMs_within_bounds_witness:
  "within_bounds (timeoutMs sample_lib (JNum (Fin 50)))
   \<and> within_bounds (timeoutMs sample_lib (JNum (Fin (- 7))))
   \<and> within_bounds (timeoutMs sample_lib (JNum PosInf))
   \<and> timeoutMs sample_lib (JNum (Fin 50)) = Fin 1000"
  using timeoutMs_within_bounds [of sample_lib "JNum (Fin 50)"]
    timeoutMs_within_bounds [of sample_lib "JNum (Fin (- 7))"]
    timeoutMs_within_bounds [of sample_lib "JNum PosInf"]
  by (simp add: timeoutMs_def)

text \<open>
  Claim C2 as stated includes non-numeric inputs. A call of \<^verbatim>\<open>exec\<close> without a timeout
  reads \<^verbatim>\<open>undefined\<close>, and the bound is NaN.
\<close>

theorem timeoutMs_undefined_counterexample:
  "timeoutMs sample_lib (arg (Map.empty(''command'' \<mapsto> JStr ''ls'')) ''timeout'') = NaN
   \<and> \<not> within_bounds (timeoutMs sample_lib (arg (Map.empty(''command'' \<mapsto> JStr ''ls'')) ''timeout''))"
  by (simp add: timeoutMs_def within_bounds_def arg_def)

section \<open>Splitting and joining on newlines\<close>

lemma split_scan_nonempty [simp]: "split_scan p ps t \<noteq> []"
  by (induction p ps t rule: split_scan.induct) (auto simp: Let_def)

lemma split_scan_concat: "concat (split_scan c [] t) = filter (\<lambda>x. x \<noteq> c) t"
proof (induction c "[]::string" t rule: split_scan.induct)
  case (1 p)
  show ?case by simp
next
  case (2 p c cs)
  show ?case
  proof (cases "c = p")
    case True
    with 2 show ?thesis by simp
  next
    case False
    have "concat ((c # hd (split_scan p [] cs)) # tl (split_scan p [] cs))
            = c # concat (split_scan p [] cs)"
      by (cases "split_scan p [] cs") simp_all
    with False 2 show ?thesis by (simp add: Let_def)
  qed
qed






lemma startsWith_append [simp]: "String_startsWith (p @ l) p"
  by (induction p) auto


section \<open>The transcript of the execution engine\<close>

lemma tagged_pushed_same:
  "tagged c (pushed lib (prefix_of c) seen v) = pushed lib (prefix_of c) seen v"
  by (simp add: tagged_def pushed_def filter_map o_def)

lemma tagged_pushed_other: "c \<noteq> d \<Longrightarrow> tagged c (pushed lib (prefix_of d) seen v) = []"
  by (cases c; cases d) (auto simp: tagged_def pushed_def filter_map o_def prefix_of_def)

lemma tagged_append: "tagged c (xs @ ys) = tagged c xs @ tagged c ys"
  by (simp add: tagged_def)

lemma drain_tagged:
  "tagged c (drain lib so se evs)
     = readStream lib (prefix_of c) (case c of Stdout \<Rightarrow> so | Stderr \<Rightarrow> se) (chunks_of c evs)"
proof (induction lib so se evs rule: drain.induct)
  case 1
  show ?case by (simp add: tagged_def chunks_of_def)
next
  case (2 lib so se v evs)
  then show ?case
    by (cases c)
      (simp_all add: tagged_append tagged_pushed_same tagged_pushed_other chunks_of_def)
next
  case (3 lib so se v evs)
  then show ?case
    by (cases c)
      (simp_all add: tagged_append tagged_pushed_same tagged_pushed_other chunks_of_def)
qed

lemma concat_filter_nonempty: "concat (filter (\<lambda>l. l \<noteq> []) xs) = concat xs"
  by (induction xs) auto

lemma pushed_content:
  "concat (map (drop (length prefix)) (pushed lib prefix seen v))
     = filter (\<lambda>x. x \<noteq> CHR 0x0A) (TextDecoder_decode lib seen v)"
  by (simp add: pushed_def o_def String_split_def concat_filter_nonempty split_scan_concat)

lemma readStream_content:
  "concat (map (drop (length prefix)) (readStream lib prefix seen vs))
     = filter (\<lambda>x. x \<noteq> CHR 0x0A) (decoded_stream lib seen vs)"
  by (induction lib prefix seen vs rule: readStream.induct) (simp_all add: pushed_content)

text \<open>
  Claim C5, as the code has it. Whatever the order in which the chunks of the two
  channels arrive, the entries of the transcript that carry the prefix of a channel are
  exactly what the reader of that channel appends when it runs alone over its chunks, in
  the same order and each once: for every chunk, the non-empty pieces between the
  newlines of the text decoded from that chunk, each behind the prefix. Taken together
  these entries hold the decoded stream of the channel without its newlines, so no
  character is lost or repeated. Lines are not reassembled across chunks and empty lines
  are dropped.
\<close>

theorem transcript_per_channel:
  "tagged c (drain lib [] [] evs) = readStream lib (prefix_of c) [] (chunks_of c evs)
   \<and> concat (map (drop (length (prefix_of c))) (tagged c (drain lib [] [] evs)))
       = filter (\<lambda>x. x \<noteq> CHR 0x0A) (decoded_stream lib [] (chunks_of c evs))"
  using drain_tagged [of c lib "[]" "[]" evs] readStream_content [of "prefix_of c" lib "[]"]
  by (cases c) simp_all

text \<open>
  Claim C5 as stated fails for a line that spans two chunks: the stream \<^verbatim>\<open>hello\<close> with its
  newline, drained as \<^verbatim>\<open>hel\<close> and \<^verbatim>\<open>lo\<close>, has the complete line \<^verbatim>\<open>hello\<close>, which is never
  appended; the transcript holds the two fragments.
\<close>

theorem transcript_split_line_counterexample:
  "''hello'' \<in> set (complete_lines (decoded_stream sample_lib [] [''hel'', ''lo'' @ [CHR 0x0A]]))
   \<and> ''[stdout] hello''
       \<notin> set (drain sample_lib [] [] [(Stdout, ''hel''), (Stdout, ''lo'' @ [CHR 0x0A])])
   \<and> drain sample_lib [] [] [(Stdout, ''hel''), (Stdout, ''lo'' @ [CHR 0x0A])]
       = [''[stdout] hel'', ''[stdout] lo'']"
  by (simp add: pushed_def prefix_of_def sample_lib_def String_split_def complete_lines_def
      Let_def)

section \<open>The result text of the execution engine\<close>







section \<open>The ambiguous edit\<close>

lemma split_scan_length: "length (split_scan p ps t) = Suc (occurrences_scan p ps t)"
proof (induction p ps t rule: split_scan.induct)
  case (1 p ps) show ?case by simp
next
  case (2 p ps c cs)
  show ?case
  proof (cases "String_startsWith (c # cs) (p # ps)")
    case True with 2 show ?thesis by simp
  next
    case False
    obtain x xs where "split_scan p ps cs = x # xs" by (cases "split_scan p ps cs") auto
    with False 2 show ?thesis by (auto simp: Let_def)
  qed
qed

lemma occurrences_includes: "0 < occurrences_scan p ps t \<Longrightarrow> String_includes t (p # ps)"
  by (induction p ps t rule: occurrences_scan.induct) (auto split: if_splits)

lemma split_count_occurrences:
  "old \<noteq> [] \<Longrightarrow> split_count lib t (JStr old) = int (occurrences t old)"
  by (cases old) (simp_all add: split_count_def String_split_def occurrences_def split_scan_length)

lemma show_int_3: "show_int 3 = ''3''" by (simp add: show_int_def show_nat.simps)

lemma map_of_edit: "map_of (TOOLS cfg lib sys) ''edit'' = Some (''Replace old with new in file'',
         [(''path'', ''string''), (''old'', ''string''), (''new'', ''string''),
          (''all'', ''boolean?'')],
         tool_edit lib sys)"
  by (simp add: TOOLS_def)

text \<open>
  Claim C7. The edit capability is invoked on a readable file in which the old string, not
  empty, occurs three times (counted from the left without overlap, as \<^verbatim>\<open>split\<close> finds
  the occurrences), without a truthy \<^verbatim>\<open>all\<close>. The result is the literal text of the claim
  and the state of the system is the one before the call: nothing was written.
\<close>

theorem edit_three_occurrences:
  assumes "getPath args = Inr p"
    and "file_text sys p w = Inr text"
    and "arg args ''old'' = JStr old"
    and "old \<noteq> []"
    and "\<not> truthy (arg args ''all'')"
    and "occurrences text old = 3"
  shows "runTool cfg lib sys ''edit'' args w
           = Some (''error: old_string appears 3 times, use all=true'', w)"
proof -
  have inc: "String_includes text old"
    using assms(4,6) by (cases old) (auto simp: occurrences_def intro: occurrences_includes)
  have cnt: "split_count lib text (JStr old) = 3"
    using assms(4,6) by (simp add: split_count_occurrences)
  have "tool_edit lib sys args w = Some (Inr ''error: old_string appears 3 times, use all=true'', w)"
    using assms(1,2,3,5) inc cnt by (simp add: tool_edit_def Let_def show_int_3)
  then show ?thesis
    by (simp add: runTool_def map_of_edit)
qed

theorem edit_three_occurrences_witness:
  "runTool default_config sample_lib sample_sys ''edit''
     (Map.empty(''path'' \<mapsto> JStr ''notes.txt'', ''old'' \<mapsto> JStr ''ab'', ''new'' \<mapsto> JStr ''x''))
     (Map.empty(''notes.txt'' \<mapsto> ''ab ab-ab''))
   = Some (''error: old_string appears 3 times, use all=true'', Map.empty(''notes.txt'' \<mapsto> ''ab ab-ab''))"
proof -
  let ?args = "Map.empty(''path'' \<mapsto> JStr ''notes.txt'', ''old'' \<mapsto> JStr ''ab'', ''new'' \<mapsto> JStr ''x'')"
  let ?w = "Map.empty(''notes.txt'' \<mapsto> ''ab ab-ab'')"
  have 1: "getPath ?args = Inr (JStr ''notes.txt'')" by (simp add: getPath_def arg_def js_or_def)
  have 2: "file_text sample_sys (JStr ''notes.txt'') ?w = Inr ''ab ab-ab''" by (simp add: sample_sys_def)
  have 3: "arg ?args ''old'' = JStr ''ab''" by (simp add: arg_def)
  have 4: "''ab'' \<noteq> []" by simp
  have 5: "\<not> truthy (arg ?args ''all'')" by (simp add: arg_def)
  have 6: "occurrences ''ab ab-ab'' ''ab'' = 3" by (simp add: occurrences_def)
  show ?thesis by (rule edit_three_occurrences [OF 1 2 3 4 5 6])
qed

section \<open>Schema generation\<close>

lemma endsWith_sentinel: "String_endsWith v ''?'' \<longleftrightarrow> has_sentinel v"
proof (cases "rev v")
  case Nil then show ?thesis by (simp add: String_endsWith_def has_sentinel_def)
next
  case (Cons a t)
  then have "v \<noteq> []" "last v = a" by (auto simp: last_rev [symmetric] simp del: last_rev)
  with Cons show ?thesis by (simp add: String_endsWith_def has_sentinel_def)
qed

lemma exposed_number: "numeric_type v \<Longrightarrow> exposed_type lib v = ''integer''"
  by (auto simp: numeric_type_def exposed_type_def String_replace_def GetSubstitution_def)

lemma schema_of_describes: "describes tool (schema_of lib tool)"
proof -
  obtain name description params handler where t: "tool = (name, description, params, handler)"
    by (cases tool) auto
  have "filter (\<lambda>(key, v). \<not> String_endsWith v ''?'') params = filter (\<lambda>(k, v). \<not> has_sentinel v) params"
    by (simp add: endsWith_sentinel)
  moreover have "map fst (map (\<lambda>(key, v). (key, exposed_type lib v)) params) = map fst params"
    by (induction params) auto
  moreover have "\<forall>(k, v) \<in> set params. numeric_type v \<longrightarrow> (k, ''integer'') \<in> set (map (\<lambda>(key, v). (key, exposed_type lib v)) params)"
    by (force simp: exposed_number)
  ultimately show ?thesis
    unfolding t describes_def schema_of_def by simp
qed

text \<open>
  Claim C9. \<^verbatim>\<open>makeSchema\<close> produces one entry per capability of the closed set, in the
  order of the table and under ten distinct names. In each entry \<^verbatim>\<open>required\<close> lists exactly
  the parameters whose declared type does not end with the sentinel \<^verbatim>\<open>?\<close>, and every
  parameter declared as a number, optional or not, has the type \<^verbatim>\<open>integer\<close>.
\<close>

theorem makeSchema_describes_TOOLS:
  "list_all2 describes (TOOLS cfg lib sys) (makeSchema cfg lib sys)
   \<and> distinct (map fst (TOOLS cfg lib sys))
   \<and> length (makeSchema cfg lib sys) = 10"
proof -
  have "list_all2 describes ts (map (schema_of lib) ts)" for ts :: "(string \<times> 'a Tool) list"
    by (induction ts) (simp_all add: schema_of_describes)
  then show ?thesis
    by (simp add: makeSchema_def) (simp add: TOOLS_def)
qed

theorem makeSchema_describes_TOOLS_witness:
  "describes (TOOLS default_config sample_lib sample_sys ! 5) (makeSchema default_config sample_lib sample_sys ! 5)
  \<and> schema_name (makeSchema default_config sample_lib sample_sys ! 5) = ''exec''
  \<and> required (schema_input (makeSchema default_config sample_lib sample_sys ! 5)) = [''command'', ''timeout'']
  \<and> required (schema_input (makeSchema default_config sample_lib sample_sys ! 0)) = [''path'']
  \<and> (''offset'', ''integer'') \<in> set (properties (schema_input (makeSchema default_config sample_lib sample_sys ! 0)))"
proof -
  let ?T = "TOOLS default_config sample_lib sample_sys"
  let ?S = "makeSchema default_config sample_lib sample_sys"
  from makeSchema_describes_TOOLS [of default_config sample_lib sample_sys]
  have all: "list_all2 describes ?T ?S" by blast
  have len: "length ?T = 10" by (simp add: TOOLS_def)
  have 5: "describes (?T ! 5) (?S ! 5)" using all len by (simp add: list_all2_conv_all_nth)
  have 0: "describes (?T ! 0) (?S ! 0)" using all len by (simp add: list_all2_conv_all_nth)
  have t5: "?T ! 5 = (''exec'', ''Execute shell command with live output and timeout'',
         [(''command'', ''string''), (''timeout'', ''number'')],
         tool_exec default_config sample_lib sample_sys)" by (simp add: TOOLS_def)
  have t0: "?T ! 0 = (''read'', ''Read file with line numbers'',
         [(''path'', ''string''), (''offset'', ''number?''), (''limit'', ''number?'')],
         tool_read sample_lib sample_sys)" by (simp add: TOOLS_def)
  from 5 0 show ?thesis unfolding t5 t0
    by (simp add: describes_def has_sentinel_def numeric_type_def del: nth_Cons_numeral)
qed

section \<open>Dispatch\<close>
















section \<open>The configured maximum file size\<close>

lemma TOOLS_MAX_FILE_SIZE: "TOOLS (cfg\<lparr>MAX_FILE_SIZE := m\<rparr>) lib sys = TOOLS cfg lib sys"
proof -
  have "tool_grep (cfg\<lparr>MAX_FILE_SIZE := m\<rparr>) lib sys = tool_grep cfg lib sys"
    by (intro ext) (simp add: tool_grep_def split: sum.splits)
  moreover have "tool_exec (cfg\<lparr>MAX_FILE_SIZE := m\<rparr>) lib sys = tool_exec cfg lib sys"
    by (intro ext) (simp add: tool_exec_def SHELL_def split: sum.splits)
  ultimately show ?thesis by (simp add: TOOLS_def)
qed

lemma split_scan_length_le: "length (split_scan c [] t) \<le> Suc (length t)"
  by (induction c "[]::string" t rule: split_scan.induct) (auto simp: Let_def)

lemma slice_all: "Array_slice lib xs (JNum (Fin 0)) JUndefined = xs"
  by (simp add: Array_slice_def rel_index_def ToIntegerOrInfinity_def Let_def)

lemma line_number:
  assumes "Suc i \<le> 2 ^ 53"
  shows "ToString lib (js_add lib (js_add lib (JNum (Fin 0)) (JNum (Fin (real i)))) (JNum (Fin 1)))
           = show_nat (Suc i)"
proof -
  have r: "real i + 1 \<le> 2 ^ 53"
  proof -
    have "real (Suc i) \<le> real ((2::nat) ^ 53)" using assms by (simp only: of_nat_le_iff)
    then show ?thesis by simp
  qed
  then have r0: "real i \<le> 2 ^ 53" by simp
  have lt: "real i + 1 < 10 ^ 21" using r by simp
  have fl: "\<lfloor>real i + 1\<rfloor> = int (Suc i)" by linarith
  have "real i + 1 \<in> \<int>" by (metis Ints_of_nat of_nat_Suc add.commute)
  moreover have "nat (int i + 1) = Suc i" by linarith
  ultimately show ?thesis
    using r r0 lt fl by (simp add: show_int_def)
qed

text \<open>
  Claim C10. The configuration value \<^verbatim>\<open>MAX_FILE_SIZE\<close> is read at startup and used by no
  tool: whatever its value, every invocation has the same result and the same effect. In
  particular \<^verbatim>\<open>read\<close> without offset and limit returns every line of the file behind its
  number, for a file of any length that a string can have.
\<close>

theorem read_ignores_MAX_FILE_SIZE:
  "runTool (cfg\<lparr>MAX_FILE_SIZE := m\<rparr>) lib sys name args w = runTool cfg lib sys name args w
   \<and> (getPath args = Inr p \<and> file_text sys p w = Inr t \<and> length t < 2 ^ 53
      \<and> arg args ''offset'' = JUndefined \<and> arg args ''limit'' = JUndefined \<longrightarrow>
        runTool cfg lib sys ''read'' args w
          = Some (Array_join [CHR 0x0A] (numbered (String_split t [CHR 0x0A])), w))"
proof (intro conjI impI)
  show "runTool (cfg\<lparr>MAX_FILE_SIZE := m\<rparr>) lib sys name args w = runTool cfg lib sys name args w"
    by (simp add: runTool_def TOOLS_MAX_FILE_SIZE)
next
  assume a: "getPath args = Inr p \<and> file_text sys p w = Inr t \<and> length t < 2 ^ 53
      \<and> arg args ''offset'' = JUndefined \<and> arg args ''limit'' = JUndefined"
  let ?lines = "String_split t [CHR 0x0A]"
  have len: "length ?lines \<le> 2 ^ 53"
    using a split_scan_length_le [of "CHR 0x0A" t] by (simp add: String_split_def)
  have "map (\<lambda>(index, line). String_padStart 4
           (ToString lib (js_add lib (js_add lib (JNum (Fin 0)) (JNum (Fin (real index)))) (JNum (Fin 1))))
             @ ''| '' @ line) (enumerate 0 ?lines) = numbered ?lines"
    unfolding numbered_def
  proof (rule map_cong [OF refl])
    fix x assume m: "x \<in> set (enumerate 0 ?lines)"
    obtain i l where x: "x = (i, l)" by (cases x)
    with m have "i < length ?lines" by (simp add: in_set_enumerate_eq)
    with len have "Suc i \<le> 2 ^ 53" by simp
    then show "(case x of (index, line) \<Rightarrow> String_padStart 4
           (ToString lib (js_add lib (js_add lib (JNum (Fin 0)) (JNum (Fin (real index)))) (JNum (Fin 1))))
             @ ''| '' @ line) = (case x of (i, l) \<Rightarrow> String_padStart 4 (show_nat (Suc i)) @ ''| '' @ l)"
      unfolding x by (simp only: prod.case line_number)
  qed
  then have "tool_read lib sys args w = Some (Inr (Array_join [CHR 0x0A] (numbered ?lines)), w)"
    using a by (simp add: tool_read_def Let_def nullish_def slice_all)
  then show "runTool cfg lib sys ''read'' args w = Some (Array_join [CHR 0x0A] (numbered ?lines), w)"
    by (simp add: runTool_def TOOLS_def)
qed

theorem read_ignores_MAX_FILE_SIZE_witness:
  "runTool (default_config\<lparr>MAX_FILE_SIZE := Fin 1\<rparr>) sample_lib sample_sys ''read''
     (Map.empty(''path'' \<mapsto> JStr ''a.txt'')) (Map.empty(''a.txt'' \<mapsto> ''one'' @ [CHR 0x0A] @ ''two''))
   = Some (''   1| one'' @ [CHR 0x0A] @ ''   2| two'', Map.empty(''a.txt'' \<mapsto> ''one'' @ [CHR 0x0A] @ ''two''))"
proof -
  let ?args = "Map.empty(''path'' \<mapsto> JStr ''a.txt'')"
  let ?t = "''one'' @ [CHR 0x0A] @ ''two''"
  let ?w = "Map.empty(''a.txt'' \<mapsto> ?t)"
  note th = read_ignores_MAX_FILE_SIZE [where cfg = default_config and m = "Fin 1"
      and lib = sample_lib and sys = sample_sys and name = "''read''" and args = ?args and w = ?w
      and p = "JStr ''a.txt''" and t = ?t]
  have h: "getPath ?args = Inr (JStr ''a.txt'') \<and> file_text sample_sys (JStr ''a.txt'') ?w = Inr ?t
      \<and> length ?t < 2 ^ 53 \<and> arg ?args ''offset'' = JUndefined \<and> arg ?args ''limit'' = JUndefined"
    by (simp add: getPath_def arg_def js_or_def sample_sys_def)
  have n: "Array_join [CHR 0x0A] (numbered (String_split ?t [CHR 0x0A]))
             = ''   1| one'' @ [CHR 0x0A] @ ''   2| two''"
  proof -
    have s1: "show_nat (Suc 0) = ''1''" and s2: "show_nat (Suc (Suc 0)) = ''2''"
      by (simp_all add: show_nat.simps)
    have r: "replicate 3 CHR '' '' = ''   ''"
      by (simp add: numeral_3_eq_3)
    show ?thesis
      by (simp add: numbered_def String_split_def String_padStart_def s1 s2 r Let_def)
  qed
  from th h have "runTool (default_config\<lparr>MAX_FILE_SIZE := Fin 1\<rparr>) sample_lib sample_sys ''read'' ?args ?w
      = Some (Array_join [CHR 0x0A] (numbered (String_split ?t [CHR 0x0A])), ?w)"
    by simp
  then show ?thesis unfolding n .
qed

section \<open>The conversation of a session\<close>

lemma run_blocks_ids:
  "run_blocks cfg lib sys bs w = Some (rs, w') \<Longrightarrow>
     map tool_use_id rs = map (\<lambda>b. the (block_id b)) (filter dispatched bs)"
proof (induction bs arbitrary: w rs)
  case Nil then show ?case by simp
next
  case (Cons b bs)
  show ?case
  proof (cases "dispatched b")
    case False
    with Cons show ?thesis by simp
  next
    case True
    with Cons.prems obtain result w1 rs1 where
      "run_blocks cfg lib sys bs w1 = Some (rs1, w')"
      "rs = \<lparr>result_type = ''tool_result'', tool_use_id = the (block_id b), result_content = result\<rparr> # rs1"
      by (auto split: option.splits prod.splits)
    with True Cons.IH show ?thesis by simp
  qed
qed

lemma paired_append: "paired xs \<Longrightarrow> paired ys \<Longrightarrow> paired (xs @ ys)"
proof (induction xs rule: paired.induct)
  case 1 then show ?case by simp
next
  case (2 m) then show ?case by (cases ys) simp_all
next
  case (3 m r ms)
  then show ?case by (cases "invocation_ids m = []") simp_all
qed

lemma paired_ids: "paired ms \<Longrightarrow> concat (map invocation_ids ms) = concat (map result_ids ms)"
  by (induction ms rule: paired.induct) (auto split: if_splits)

lemma paired_user_turn: "paired [\<lparr>role = r, content = Text t\<rparr>]"
  by (simp add: result_ids_def invocation_ids_def)

lemma paired_round:
  assumes "run_blocks cfg lib sys (response_blocks resp) w = Some (rs, w')"
  shows "paired ([assistant_turn resp] @ (if rs = [] then [] else [results_turn rs]))"
  using run_blocks_ids [OF assms]
  by (auto simp: result_ids_def invocation_ids_def assistant_turn_def results_turn_def)


lemma respond_messages:
  assumes "respond cfg lib sys resp s = Some s'"
  obtains rs w' where "run_blocks cfg lib sys (response_blocks resp) (world s) = Some (rs, w')"
    and "messages s' = messages s @ [assistant_turn resp] @ (if rs = [] then [] else [results_turn rs])"
    and "sent s' = sent s \<or> sent s' = sent s @ [messages s']"
    and "phase s' = (if rs = [] \<or> stopRequested s then Idle else phase s)"
    and "sent s' = (if rs = [] \<or> stopRequested s then sent s else sent s @ [messages s'])"
    and "stopRequested s' = stopRequested s"
    and "world s' = w'"
  using assms
  by (auto simp: respond_def Let_def assistant_turn_def results_turn_def split: option.splits prod.splits if_splits)

lemma step_inv:
  assumes "step cfg lib sys s ev = Some s'" and "session_inv s"
  shows "session_inv s'"
proof (cases ev)
  case (Line l)
  with assms show ?thesis
    by (auto simp: step_def session_inv_def Let_def result_ids_def invocation_ids_def
        split: phase.splits if_splits intro!: paired_append)
next
  case Sigint
  with assms show ?thesis by (auto simp: step_def session_inv_def split: phase.splits)
next
  case Sigterm
  with assms show ?thesis by (auto simp: step_def session_inv_def split: phase.splits)
next
  case (Reply r)
  show ?thesis
  proof (cases r)
    case (Inl e)
    with Reply assms show ?thesis by (auto simp: step_def session_inv_def split: phase.splits)
  next
    case (Inr resp)
    with Reply assms have r: "respond cfg lib sys resp s = Some s'"
      by (auto simp: step_def split: phase.splits)
    then obtain rs w' where rb: "run_blocks cfg lib sys (response_blocks resp) (world s) = Some (rs, w')"
      and m: "messages s' = messages s @ [assistant_turn resp] @ (if rs = [] then [] else [results_turn rs])"
      and st: "sent s' = sent s \<or> sent s' = sent s @ [messages s']"
      by (rule respond_messages)
    have a: "paired ([assistant_turn resp] @ (if rs = [] then [] else [results_turn rs]))"
      by (rule paired_round [OF rb])
    have b: "paired (messages s)"
      using assms(2) by (simp add: session_inv_def)
    have "paired (messages s')"
      unfolding m by (rule paired_append [OF b a])
    with st assms(2) show ?thesis by (auto simp: session_inv_def)
  qed
qed

lemma run_inv: "run cfg lib sys s evs = Some s' \<Longrightarrow> session_inv s \<Longrightarrow> session_inv s'"
  by (induction evs arbitrary: s) (auto split: option.splits dest: step_inv)

text \<open>
  Claim C1, as the code has it. In every state that a session reaches, the conversation is
  paired: each invocation segment that passes the guard of the loop (tagged as an
  invocation, with a non-empty name, an argument map and a non-empty identifier) is
  answered by exactly one result segment with its identifier, in the turn that follows
  directly. The same holds for every history passed to the transport, so the results are
  appended before the next call. Over the whole conversation the identifiers of these
  invocations and the identifiers of the results are the same sequence: none is orphaned.
\<close>

theorem invocations_answered:
  assumes "run cfg lib sys (init w) evs = Some s"
  shows "paired (messages s) \<and> (\<forall>h \<in> set (sent s). paired h)
         \<and> concat (map invocation_ids (messages s)) = concat (map result_ids (messages s))"
proof -
  have "session_inv (init w)" by (simp add: session_inv_def init_def)
  from run_inv [OF assms this] show ?thesis by (simp add: session_inv_def paired_ids)
qed

lemma runTool_nope: "runTool cfg lib sys ''nope'' args w = Some (''error: unknown tool nope'', w)"
  by (simp add: runTool_def TOOLS_def Object_prototype_keys_def)

lemma dispatched_invoke: "dispatched (invoke i n) \<longleftrightarrow> i \<noteq> [] \<and> n \<noteq> []"
  by (auto simp: dispatched_def invoke_def)

lemma dispatched_say: "\<not> dispatched (say t)"
  by (simp add: dispatched_def say_def)

lemma run_blocks_nope:
  "run_blocks cfg lib sys [invoke ''toolu_1'' ''nope''] w
     = Some ([\<lparr>result_type = ''tool_result'', tool_use_id = ''toolu_1'',
               result_content = ''error: unknown tool nope''\<rparr>], w)"
  by (simp add: dispatched_def invoke_def runTool_nope)

lemma run_blocks_unnamed:
  "run_blocks cfg lib sys [invoke ''toolu_1'' []] w = Some ([], w)"
  by (simp add: dispatched_def invoke_def)

lemma trim_plain:
  "String_trim sample_lib ''hi'' = ''hi''" "String_trim sample_lib ''go'' = ''go''"
  "String_trim sample_lib '' /c '' = ''/c''" "String_trim sample_lib ''next'' = ''next''"
  "String_trim sample_lib ''again'' = ''again''"
  by (simp_all add: sample_lib_def trim_ascii_def trimEnd_ascii_def is_space_def)

lemma sample_round:
  "run default_config sample_lib sample_sys (init Map.empty)
     [Line ''hi'', reply [say ''looking'', invoke ''toolu_1'' ''nope''] (Some (10, 5)),
      reply [say ''done''] (Some (20, 7))]
   = Some \<lparr>messages =
        [\<lparr>role = ''user'', content = Text ''hi''\<rparr>,
         \<lparr>role = ''assistant'', content = Blocks [say ''looking'', invoke ''toolu_1'' ''nope'']\<rparr>,
         \<lparr>role = ''user'', content = Results
            [\<lparr>result_type = ''tool_result'', tool_use_id = ''toolu_1'',
              result_content = ''error: unknown tool nope''\<rparr>]\<rparr>,
         \<lparr>role = ''assistant'', content = Blocks [say ''done'']\<rparr>],
       totalInputTokens = 30, totalOutputTokens = 12, stopRequested = False, phase = Idle,
       world = Map.empty,
       sent =
        [[\<lparr>role = ''user'', content = Text ''hi''\<rparr>],
         [\<lparr>role = ''user'', content = Text ''hi''\<rparr>,
          \<lparr>role = ''assistant'', content = Blocks [say ''looking'', invoke ''toolu_1'' ''nope'']\<rparr>,
          \<lparr>role = ''user'', content = Results
            [\<lparr>result_type = ''tool_result'', tool_use_id = ''toolu_1'',
              result_content = ''error: unknown tool nope''\<rparr>]\<rparr>]]\<rparr>"
proof -
  have b1: "run_blocks default_config sample_lib sample_sys [say ''looking'', invoke ''toolu_1'' ''nope''] Map.empty
     = Some ([\<lparr>result_type = ''tool_result'', tool_use_id = ''toolu_1'',
               result_content = ''error: unknown tool nope''\<rparr>], Map.empty)"
    by (simp add: dispatched_def say_def invoke_def runTool_nope)
  have b2: "run_blocks default_config sample_lib sample_sys [say ''done''] Map.empty = Some ([], Map.empty)"
    by (simp add: dispatched_say)
  show ?thesis
    by (simp add: step_def init_def trim_plain reply_def respond_def response_blocks_def b1 b2 Let_def
        del: run_blocks.simps)
qed

theorem invocations_answered_witness:
  "\<exists>s. run default_config sample_lib sample_sys (init Map.empty)
         [Line ''hi'', reply [say ''looking'', invoke ''toolu_1'' ''nope''] (Some (10, 5)),
          reply [say ''done''] (Some (20, 7))] = Some s
       \<and> paired (messages s) \<and> (\<forall>h \<in> set (sent s). paired h)
       \<and> concat (map invocation_ids (messages s)) = concat (map result_ids (messages s))
       \<and> concat (map result_ids (messages s)) = [''toolu_1'']"
proof -
  let ?evs = "[Line ''hi'', reply [say ''looking'', invoke ''toolu_1'' ''nope''] (Some (10, 5)),
          reply [say ''done''] (Some (20, 7))]"
  obtain s where r: "run default_config sample_lib sample_sys (init Map.empty) ?evs = Some s"
    using sample_round by blast
  have "concat (map result_ids (messages s)) = [''toolu_1'']"
    using r unfolding sample_round by (auto simp: result_ids_def)
  with invocations_answered [OF r] r show ?thesis by blast
qed

text \<open>
  Claim C1 as stated speaks of every invocation segment. A segment tagged as an invocation
  whose name is the empty string fails the guard: it is not dispatched and gets no result,
  while the assistant turn that holds it is appended as it came.
\<close>

theorem orphaned_invocation_counterexample:
  "map_option (\<lambda>s. (phase s, map tool_use_id (result_segments (messages s)),
                     map block_id (invocation_segments (messages s))))
     (run default_config sample_lib sample_sys (init Map.empty)
        [Line ''hi'', reply [invoke ''toolu_1'' []] None])
   = Some (Idle, [], [Some ''toolu_1''])"
  by (simp add: step_def init_def trim_plain reply_def
      respond_def response_blocks_def run_blocks_unnamed Let_def
      invocation_segments_def result_segments_def del: run_blocks.simps)
    (simp add: invoke_def)

section \<open>Cancellation\<close>

text \<open>
  Claim C3, as the code has it. The interrupt only sets the flag: the phase, the
  conversation and the pending call are untouched. The flag is read by the condition of
  the loop alone, after the round is complete: when it is set, the reply of the call in
  flight is still processed, its tools are dispatched, the assistant turn is appended and,
  when the round had invocations, the turn of their results as well; then the loop leaves
  to \<open>Idle\<close> without a further call of the transport. A line that starts a request
  clears the flag and sends the whole conversation, pending results included.
\<close>

theorem cancellation_after_round:
  "(phase s \<noteq> Exited \<longrightarrow> step cfg lib sys s Sigint = Some (s\<lparr>stopRequested := True\<rparr>))
   \<and> (phase s = InFlight \<and> stopRequested s
        \<and> run_blocks cfg lib sys (response_blocks resp) (world s) = Some (rs, w') \<longrightarrow>
       (\<exists>s'. step cfg lib sys s (Reply (Inr resp)) = Some s'
             \<and> phase s' = Idle \<and> sent s' = sent s
             \<and> messages s' = messages s @ [assistant_turn resp]
                               @ (if rs = [] then [] else [results_turn rs])))
   \<and> (phase s = Idle \<and> is_request lib (Line l) \<longrightarrow>
       (\<exists>s'. step cfg lib sys s (Line l) = Some s'
             \<and> \<not> stopRequested s' \<and> phase s' = InFlight
             \<and> messages s' = messages s @ [user_turn lib l]
             \<and> sent s' = sent s @ [messages s @ [user_turn lib l]]))"
  by (auto simp: step_def respond_def Let_def assistant_turn_def results_turn_def user_turn_def
      is_request_def split: phase.splits option.splits)

theorem cancellation_after_round_witness:
  "step default_config sample_lib sample_sys
     \<lparr>messages = [user_turn sample_lib ''go''], totalInputTokens = 0, totalOutputTokens = 0,
      stopRequested = False, phase = InFlight, world = Map.empty, sent = [[user_turn sample_lib ''go'']]\<rparr>
     Sigint
   = Some \<lparr>messages = [user_turn sample_lib ''go''], totalInputTokens = 0, totalOutputTokens = 0,
      stopRequested = True, phase = InFlight, world = Map.empty, sent = [[user_turn sample_lib ''go'']]\<rparr>
   \<and> (\<exists>s'. step default_config sample_lib sample_sys
          \<lparr>messages = [user_turn sample_lib ''go''], totalInputTokens = 0, totalOutputTokens = 0,
           stopRequested = True, phase = InFlight, world = Map.empty, sent = [[user_turn sample_lib ''go'']]\<rparr>
          (reply [invoke ''toolu_1'' ''nope''] None) = Some s'
        \<and> phase s' = Idle \<and> sent s' = [[user_turn sample_lib ''go'']]
        \<and> messages s' = [user_turn sample_lib ''go'', \<lparr>role = ''assistant'', content = Blocks [invoke ''toolu_1'' ''nope'']\<rparr>,
             results_turn [\<lparr>result_type = ''tool_result'', tool_use_id = ''toolu_1'',
               result_content = ''error: unknown tool nope''\<rparr>]])
   \<and> (\<exists>s'. step default_config sample_lib sample_sys
          \<lparr>messages = [], totalInputTokens = 0, totalOutputTokens = 0,
           stopRequested = True, phase = Idle, world = Map.empty, sent = []\<rparr> (Line ''go'') = Some s'
        \<and> \<not> stopRequested s' \<and> phase s' = InFlight \<and> sent s' = [[user_turn sample_lib ''go'']])"
proof -
  let ?s0 = "\<lparr>messages = [], totalInputTokens = 0, totalOutputTokens = 0,
           stopRequested = True, phase = Idle, world = Map.empty :: string \<rightharpoonup> string, sent = []\<rparr>"
  let ?s1 = "\<lparr>messages = [user_turn sample_lib ''go''], totalInputTokens = 0, totalOutputTokens = 0,
      stopRequested = False, phase = InFlight, world = Map.empty :: string \<rightharpoonup> string, sent = [[user_turn sample_lib ''go'']]\<rparr>"
  let ?s2 = "\<lparr>messages = [user_turn sample_lib ''go''], totalInputTokens = 0, totalOutputTokens = 0,
      stopRequested = True, phase = InFlight, world = Map.empty :: string \<rightharpoonup> string, sent = [[user_turn sample_lib ''go'']]\<rparr>"
  let ?resp = "\<lparr>response_content = Some [invoke ''toolu_1'' ''nope''], response_error = None,
                  response_usage = None\<rparr>"
  let ?rs = "[\<lparr>result_type = ''tool_result'', tool_use_id = ''toolu_1'',
               result_content = ''error: unknown tool nope''\<rparr>]"
  note a = cancellation_after_round [where s = ?s1 and cfg = default_config and lib = sample_lib
      and sys = sample_sys, THEN conjunct1]
  note b = cancellation_after_round [where s = ?s2 and cfg = default_config and lib = sample_lib
      and sys = sample_sys and resp = ?resp and rs = ?rs and w' = Map.empty,
      THEN conjunct2, THEN conjunct1]
  note c = cancellation_after_round [where s = ?s0 and cfg = default_config and lib = sample_lib
      and sys = sample_sys and l = "''go''", THEN conjunct2, THEN conjunct2]
  have rb: "run_blocks default_config sample_lib sample_sys (response_blocks ?resp) (world ?s2)
          = Some (?rs, Map.empty)"
    by (simp add: response_blocks_def run_blocks_nope del: run_blocks.simps)
  have rq: "is_request sample_lib (Line ''go'')"
    by (simp add: is_request_def trim_plain)
  have 1: "step default_config sample_lib sample_sys ?s1 Sigint = Some ?s2"
    using a by simp
  have 2: "\<exists>s'. step default_config sample_lib sample_sys ?s2 (reply [invoke ''toolu_1'' ''nope''] None) = Some s'
        \<and> phase s' = Idle \<and> sent s' = [[user_turn sample_lib ''go'']]
        \<and> messages s' = [user_turn sample_lib ''go'', \<lparr>role = ''assistant'', content = Blocks [invoke ''toolu_1'' ''nope'']\<rparr>,
             results_turn ?rs]"
    using b rb by (simp add: reply_def assistant_turn_def response_blocks_def)
  have 3: "\<exists>s'. step default_config sample_lib sample_sys ?s0 (Line ''go'') = Some s'
        \<and> \<not> stopRequested s' \<and> phase s' = InFlight \<and> sent s' = [[user_turn sample_lib ''go'']]"
    using c rq by auto
  from 1 2 3 show ?thesis by blast
qed

text \<open>
  Claim C3 as stated has the loop leave right after the assistant turn. With the flag set
  during a round that invokes a tool, the conversation ends with the turn of the results,
  not with the assistant turn; no second call is made.
\<close>

theorem cancellation_counterexample:
  "map_option (\<lambda>s. (phase s, stopRequested s, messages s, sent s))
     (run default_config sample_lib sample_sys (init Map.empty)
        [Line ''go'', Sigint, reply [invoke ''toolu_1'' ''nope''] None])
   = Some (Idle, True,
       [\<lparr>role = ''user'', content = Text ''go''\<rparr>,
        \<lparr>role = ''assistant'', content = Blocks [invoke ''toolu_1'' ''nope'']\<rparr>,
        \<lparr>role = ''user'', content = Results
           [\<lparr>result_type = ''tool_result'', tool_use_id = ''toolu_1'',
             result_content = ''error: unknown tool nope''\<rparr>]\<rparr>],
       [[\<lparr>role = ''user'', content = Text ''go''\<rparr>]])"
  by (simp add: step_def init_def trim_plain reply_def respond_def response_blocks_def
      run_blocks_nope Let_def del: run_blocks.simps)

section \<open>Usage counters\<close>




end
